theory Spec2Isabelle
  imports Main
begin

section \<open>The module gradio/inputs.py\<close>

text \<open>
  The module consists of class statements only. Every class body defines a constructor
  that calls \<^verbatim>\<open>warnings.warn(message, DeprecationWarning)\<close> and then
  \<^verbatim>\<open>super().__init__(keyword=variable, ...)\<close>; the class \<^verbatim>\<open>State\<close> defines two
  more methods. The classes are a datatype, in the order of the file; what each class
  statement says (its name, its base, its signature, its message, the keywords of its
  super call, its methods) is one function on that datatype, one equation per class.
\<close>

datatype shim =
  Textbox | Number | Slider | Checkbox | CheckboxGroup | Radio | Dropdown | Image
  | Video | Audio | File | Dataframe | Timeseries | State

definition module_classes :: "shim list" where
  "module_classes =
     [Textbox, Number, Slider, Checkbox, CheckboxGroup, Radio, Dropdown, Image,
      Video, Audio, File, Dataframe, Timeseries, State]"

text \<open>The names bound by \<^verbatim>\<open>from gradio.components import (...)\<close>, lines 21 to 36.\<close>

definition components_imports :: "string list" where
  "components_imports =
     [''Audio'', ''Checkbox'', ''CheckboxGroup'', ''Component'', ''Dataframe'',
      ''Dropdown'', ''File'', ''Image'', ''Number'', ''Radio'', ''Slider'', ''State'',
      ''Textbox'', ''Timeseries'']"

text \<open>The name a class statement binds: \<^verbatim>\<open>class Textbox(...)\<close>.\<close>

fun class_name :: "shim \<Rightarrow> string" where
  "class_name Textbox = ''Textbox''"
| "class_name Number = ''Number''"
| "class_name Slider = ''Slider''"
| "class_name Checkbox = ''Checkbox''"
| "class_name CheckboxGroup = ''CheckboxGroup''"
| "class_name Radio = ''Radio''"
| "class_name Dropdown = ''Dropdown''"
| "class_name Image = ''Image''"
| "class_name Video = ''Video''"
| "class_name Audio = ''Audio''"
| "class_name File = ''File''"
| "class_name Dataframe = ''Dataframe''"
| "class_name Timeseries = ''Timeseries''"
| "class_name State = ''State''"

text \<open>
  The base of a class statement: \<^verbatim>\<open>class Textbox(Textbox)\<close>, where the name in
  brackets still denotes the imported class when the statement runs, and
  \<^verbatim>\<open>class Video(Component)\<close>.
\<close>

fun base :: "shim \<Rightarrow> string" where
  "base Textbox = ''Textbox''"
| "base Number = ''Number''"
| "base Slider = ''Slider''"
| "base Checkbox = ''Checkbox''"
| "base CheckboxGroup = ''CheckboxGroup''"
| "base Radio = ''Radio''"
| "base Dropdown = ''Dropdown''"
| "base Image = ''Image''"
| "base Video = ''Component''"
| "base Audio = ''Audio''"
| "base File = ''File''"
| "base Dataframe = ''Dataframe''"
| "base Timeseries = ''Timeseries''"
| "base State = ''State''"

text \<open>The parameters of each constructor after \<^verbatim>\<open>self\<close>, in the order of its signature.\<close>

fun params :: "shim \<Rightarrow> string list" where
  "params Textbox =
     [''lines'', ''placeholder'', ''default'', ''numeric'', ''type'', ''label'', ''optional'']"
| "params Number = [''default'', ''label'', ''optional'']"
| "params Slider =
     [''minimum'', ''maximum'', ''step'', ''default'', ''label'', ''optional'']"
| "params Checkbox = [''default'', ''label'', ''optional'']"
| "params CheckboxGroup = [''choices'', ''default'', ''type'', ''label'', ''optional'']"
| "params Radio = [''choices'', ''type'', ''default'', ''label'', ''optional'']"
| "params Dropdown = [''choices'', ''type'', ''default'', ''label'', ''optional'']"
| "params Image =
     [''shape'', ''image_mode'', ''invert_colors'', ''source'', ''tool'', ''type'', ''label'',
      ''optional'']"
| "params Video = [''type'', ''source'', ''label'', ''optional'']"
| "params Audio = [''source'', ''type'', ''label'', ''optional'']"
| "params File = [''file_count'', ''type'', ''label'', ''keep_filename'', ''optional'']"
| "params Dataframe =
     [''headers'', ''row_count'', ''col_count'', ''datatype'', ''col_width'', ''default'',
      ''type'', ''label'', ''optional'']"
| "params Timeseries = [''x'', ''y'', ''label'', ''optional'']"
| "params State = [''label'', ''default'', ''optional'']"

text \<open>
  The arguments of each \<^verbatim>\<open>super().__init__(...)\<close> call, in the order written: the
  keyword, and the local variable whose value is passed under it (every argument
  expression in the file is a bare variable).
\<close>

fun super_args :: "shim \<Rightarrow> (string \<times> string) list" where
  "super_args Textbox =
     [(''lines'', ''lines''), (''placeholder'', ''placeholder''), (''default'', ''default''),
      (''numeric'', ''numeric''), (''type'', ''type''), (''label'', ''label''),
      (''optional'', ''optional'')]"
| "super_args Number =
     [(''default'', ''default''), (''label'', ''label''), (''optional'', ''optional'')]"
| "super_args Slider =
     [(''label'', ''label''), (''minimum'', ''minimum''), (''maximum'', ''maximum''),
      (''step'', ''step''), (''default'', ''default''), (''optional'', ''optional'')]"
| "super_args Checkbox =
     [(''label'', ''label''), (''default'', ''default''), (''optional'', ''optional'')]"
| "super_args CheckboxGroup =
     [(''choices'', ''choices''), (''default'', ''default''), (''type'', ''type''),
      (''label'', ''label''), (''optional'', ''optional'')]"
| "super_args Radio =
     [(''choices'', ''choices''), (''type'', ''type''), (''default'', ''default''),
      (''label'', ''label''), (''optional'', ''optional'')]"
| "super_args Dropdown =
     [(''choices'', ''choices''), (''type'', ''type''), (''default'', ''default''),
      (''label'', ''label''), (''optional'', ''optional'')]"
| "super_args Image =
     [(''shape'', ''shape''), (''image_mode'', ''image_mode''),
      (''invert_colors'', ''invert_colors''), (''source'', ''source''), (''tool'', ''tool''),
      (''type'', ''type''), (''label'', ''label''), (''optional'', ''optional'')]"
| "super_args Video =
     [(''type'', ''type''), (''source'', ''source''), (''label'', ''label''),
      (''optional'', ''optional'')]"
| "super_args Audio =
     [(''source'', ''source''), (''type'', ''type''), (''label'', ''label''),
      (''optional'', ''optional'')]"
| "super_args File =
     [(''file_count'', ''file_count''), (''type'', ''type''), (''label'', ''label''),
      (''keep_filename'', ''keep_filename''), (''optional'', ''optional'')]"
| "super_args Dataframe =
     [(''headers'', ''headers''), (''row_count'', ''row_count''),
      (''col_count'', ''col_count''), (''datatype'', ''datatype''),
      (''col_width'', ''col_width''), (''default'', ''default''), (''type'', ''type''),
      (''label'', ''label''), (''optional'', ''optional'')]"
| "super_args Timeseries =
     [(''x'', ''x''), (''y'', ''y''), (''label'', ''label''), (''optional'', ''optional'')]"
| "super_args State =
     [(''label'', ''label''), (''default'', ''default''), (''optional'', ''optional'')]"

text \<open>
  The two message texts of the file: the classes up to \<^verbatim>\<open>Image\<close> say
  "your component", the classes from \<^verbatim>\<open>Video\<close> on say "your components".
\<close>

definition message_component :: string where
  "message_component =
     ''Usage of gradio.inputs is deprecated, and will not be supported in the future, please import your component from gradio.components''"

definition message_components :: string where
  "message_components =
     ''Usage of gradio.inputs is deprecated, and will not be supported in the future, please import your components from gradio.components''"

fun message :: "shim \<Rightarrow> string" where
  "message Textbox = message_component"
| "message Number = message_component"
| "message Slider = message_component"
| "message Checkbox = message_component"
| "message CheckboxGroup = message_component"
| "message Radio = message_component"
| "message Dropdown = message_component"
| "message Image = message_component"
| "message Video = message_components"
| "message Audio = message_components"
| "message File = message_components"
| "message Dataframe = message_components"
| "message Timeseries = message_components"
| "message State = message_components"

text \<open>The methods each class body defines, in the order written.\<close>

fun methods :: "shim \<Rightarrow> string list" where
  "methods State = [''__init__'', ''get_template_context'', ''get_shortcut_implementations'']"
| "methods c = [''__init__'']"

section \<open>The constructors\<close>

text \<open>
  Python values are opaque to the module (it only passes them on), so they are a type
  variable \<open>'v\<close>. The local variables of a constructor call, after Python has bound the
  call's arguments and the signature's defaults to the parameters, are a valuation
  \<open>env\<close> from variable names to values.
\<close>

datatype category = UserWarning | DeprecationWarning | PendingDeprecationWarning | FutureWarning

text \<open>
  \<^verbatim>\<open>warnings.warn\<close> belongs to Python's standard library. What it does with a warning
  is decided by the warnings filter in force, an input of every run: the filter gives
  the warning one of six actions. Under the action \<^verbatim>\<open>error\<close> the call raises the
  warning as an exception; under every other action (print it, print it once, drop it)
  the call returns.
\<close>

datatype action = Act_default | Act_error | Act_ignore | Act_always | Act_module | Act_once

text \<open>
  Exceptions: a warning raised as an exception, a failed attribute read, a call whose
  arguments do not fit the signature, and whatever the code of \<^verbatim>\<open>gradio.components\<close>
  raises (\<open>'e\<close>).
\<close>

datatype 'e error =
  WarningAsError category string | AttributeError string | TypeError | Raised 'e

definition warn :: "action \<Rightarrow> string \<Rightarrow> category \<Rightarrow> 'e error + unit" where
  "warn act m cat = (if act = Act_error then Inl (WarningAsError cat m) else Inr ())"

text \<open>
  What a constructor does is a trace of two kinds of event: a call of
  \<^verbatim>\<open>warnings.warn\<close> with its message and category, and a call of the constructor
  of the base class with its keyword arguments, as written.
\<close>

datatype 'v event = Warn string category | SuperInit string "(string \<times> 'v) list"

record ('v, 'e, 'o) run =
  trace :: "'v event list"
  outcome :: "'e error + 'o"

text \<open>The keyword arguments of the super call, evaluated in the constructor's locals.\<close>

definition super_kwargs :: "shim \<Rightarrow> (string \<Rightarrow> 'v) \<Rightarrow> (string \<times> 'v) list" where
  "super_kwargs c env = map (\<lambda>(k, x). (k, env x)) (super_args c)"

text \<open>
  \<^verbatim>\<open>__init__\<close>. The classes of \<^verbatim>\<open>gradio.components\<close> are not part of the module:
  their constructors are the parameter \<open>parent\<close>, which takes the name of the class and
  the keyword arguments (bound by name, so a map) and returns the object or raises.
  The body is the two statements of the source: the warning, whose exception (if the
  filter makes it one) ends the call, and then the super call, whose result is the
  constructor's.
\<close>

definition init ::
  "action \<Rightarrow> (string \<Rightarrow> (string \<rightharpoonup> 'v) \<Rightarrow> 'e error + 'o) \<Rightarrow> shim \<Rightarrow> (string \<Rightarrow> 'v)
     \<Rightarrow> ('v, 'e, 'o) run" where
  "init act parent c env =
     (case warn act (message c) DeprecationWarning of
        Inl e \<Rightarrow> \<lparr>trace = [Warn (message c) DeprecationWarning], outcome = Inl e\<rparr>
      | Inr _ \<Rightarrow>
          \<lparr>trace = [Warn (message c) DeprecationWarning,
                    SuperInit (base c) (super_kwargs c env)],
           outcome = parent (base c) (map_of (super_kwargs c env))\<rparr>)"

text \<open>The warnings a run issued, and whether it reached a super call.\<close>

fun warnings_of :: "'v event list \<Rightarrow> (string \<times> category) list" where
  "warnings_of [] = []"
| "warnings_of (Warn m cat # es) = (m, cat) # warnings_of es"
| "warnings_of (SuperInit b kw # es) = warnings_of es"

fun super_calls_of :: "'v event list \<Rightarrow> (string \<times> (string \<times> 'v) list) list" where
  "super_calls_of [] = []"
| "super_calls_of (Warn m cat # es) = super_calls_of es"
| "super_calls_of (SuperInit b kw # es) = (b, kw) # super_calls_of es"

text \<open>
  The comparison the specification makes: constructing the parent class directly, with
  the values of the shim's parameters under the parameters' own names.
\<close>

definition parent_construct ::
  "(string \<Rightarrow> (string \<rightharpoonup> 'v) \<Rightarrow> 'e error + 'o) \<Rightarrow> shim \<Rightarrow> (string \<Rightarrow> 'v) \<Rightarrow> 'e error + 'o" where
  "parent_construct parent c env =
     parent (base c) (\<lambda>n. if n \<in> set (params c) then Some (env n) else None)"

text \<open>A class renames a parameter when some keyword of its super call differs from the
  variable passed under it.\<close>

definition renames :: "shim \<Rightarrow> bool" where
  "renames c = list_ex (\<lambda>(k, x). k \<noteq> x) (super_args c)"

section \<open>Calls of the constructors\<close>

text \<open>
  The values a caller can write down, as far as the signatures of the module need them
  (their defaults are \<^verbatim>\<open>None\<close>, booleans, integers, strings and the empty list);
  any other object is \<open>PObject\<close> with its identity.
\<close>

datatype pyval =
  PNone | PBool bool | PInt int | PStr string | PList "pyval list" | PTuple "pyval list"
  | PObject nat

text \<open>
  The defaults of each signature, as written (the empty string of \<^verbatim>\<open>Textbox\<close> is
  \<open>PStr []\<close>). A parameter that is not listed has none: \<^verbatim>\<open>choices\<close> of
  \<^verbatim>\<open>CheckboxGroup\<close>, \<^verbatim>\<open>Radio\<close> and \<^verbatim>\<open>Dropdown\<close>.
\<close>

fun defaults :: "shim \<Rightarrow> (string \<times> pyval) list" where
  "defaults Textbox =
     [(''lines'', PInt 1), (''placeholder'', PNone), (''default'', PStr []),
      (''numeric'', PBool False), (''type'', PStr ''str''), (''label'', PNone),
      (''optional'', PBool False)]"
| "defaults Number =
     [(''default'', PNone), (''label'', PNone), (''optional'', PBool False)]"
| "defaults Slider =
     [(''minimum'', PInt 0), (''maximum'', PInt 100), (''step'', PNone),
      (''default'', PNone), (''label'', PNone), (''optional'', PBool False)]"
| "defaults Checkbox =
     [(''default'', PBool False), (''label'', PNone), (''optional'', PBool False)]"
| "defaults CheckboxGroup =
     [(''default'', PList []), (''type'', PStr ''value''), (''label'', PNone),
      (''optional'', PBool False)]"
| "defaults Radio =
     [(''type'', PStr ''value''), (''default'', PNone), (''label'', PNone),
      (''optional'', PBool False)]"
| "defaults Dropdown =
     [(''type'', PStr ''value''), (''default'', PNone), (''label'', PNone),
      (''optional'', PBool False)]"
| "defaults Image =
     [(''shape'', PNone), (''image_mode'', PStr ''RGB''), (''invert_colors'', PBool False),
      (''source'', PStr ''upload''), (''tool'', PStr ''editor''), (''type'', PStr ''numpy''),
      (''label'', PNone), (''optional'', PBool False)]"
| "defaults Video =
     [(''type'', PNone), (''source'', PStr ''upload''), (''label'', PNone),
      (''optional'', PBool False)]"
| "defaults Audio =
     [(''source'', PStr ''upload''), (''type'', PStr ''numpy''), (''label'', PNone),
      (''optional'', PBool False)]"
| "defaults File =
     [(''file_count'', PStr ''single''), (''type'', PStr ''file''), (''label'', PNone),
      (''keep_filename'', PBool True), (''optional'', PBool False)]"
| "defaults Dataframe =
     [(''headers'', PNone), (''row_count'', PInt 3), (''col_count'', PInt 3),
      (''datatype'', PStr ''str''), (''col_width'', PNone), (''default'', PNone),
      (''type'', PStr ''pandas''), (''label'', PNone), (''optional'', PBool False)]"
| "defaults Timeseries =
     [(''x'', PNone), (''y'', PNone), (''label'', PNone), (''optional'', PBool False)]"
| "defaults State =
     [(''label'', PNone), (''default'', PNone), (''optional'', PBool False)]"

text \<open>
  How Python binds the arguments of a call \<^verbatim>\<open>C(*args, **kwargs)\<close> to a signature
  whose parameters can all be given by position or by keyword (none of the signatures
  has \<^verbatim>\<open>*args\<close> or \<^verbatim>\<open>**kwargs\<close>). The positional arguments go to the first
  parameters, the keyword arguments to the parameters they name, and a parameter that
  got no value takes its default. The call raises \<^verbatim>\<open>TypeError\<close>, before the body of
  the constructor runs, when there are more positional arguments than parameters, when
  a keyword names no parameter, when a parameter gets two values, or when a parameter
  without default gets none. The result is the valuation of the constructor's locals.
\<close>

definition bind ::
  "shim \<Rightarrow> pyval list \<Rightarrow> (string \<times> pyval) list \<Rightarrow> (string \<Rightarrow> pyval) option" where
  "bind c args kwargs =
     (let given = zip (params c) args @ kwargs in
      if length (params c) < length args then None
      else if list_ex (\<lambda>k. k \<notin> set (params c)) (map fst kwargs) then None
      else if \<not> distinct (map fst given) then None
      else if list_ex (\<lambda>p. map_of given p = None \<and> map_of (defaults c) p = None) (params c)
        then None
      else Some (\<lambda>x. case map_of given x of
                        Some v \<Rightarrow> v
                      | None \<Rightarrow> (case map_of (defaults c) x of Some v \<Rightarrow> v | None \<Rightarrow> PNone)))"

text \<open>
  The call \<^verbatim>\<open>C(*args, **kwargs)\<close> of a class of the module: the binding, which may
  raise before anything else happens, and then the body of \<^verbatim>\<open>__init__\<close>.
\<close>

definition construct ::
  "action \<Rightarrow> (string \<Rightarrow> (string \<rightharpoonup> pyval) \<Rightarrow> 'e error + 'o) \<Rightarrow> shim \<Rightarrow> pyval list
     \<Rightarrow> (string \<times> pyval) list \<Rightarrow> (pyval, 'e, 'o) run" where
  "construct act parent c args kwargs =
     (case bind c args kwargs of
        None \<Rightarrow> \<lparr>trace = [], outcome = Inl TypeError\<rparr>
      | Some env \<Rightarrow> init act parent c env)"

section \<open>The methods of State\<close>

text \<open>
  Python dictionaries keep insertion order and have distinct keys: association lists.
  \<open>dict_setitem\<close> is \<^verbatim>\<open>d[k] = v\<close>: an existing key keeps its place and takes the new
  value, a new key goes to the end. \<open>dict_update\<close> stores the items of a second
  dictionary one by one, which is what \<^verbatim>\<open>**other\<close> does in a dictionary display.
\<close>

fun dict_setitem :: "('k \<times> 'v) list \<Rightarrow> 'k \<Rightarrow> 'v \<Rightarrow> ('k \<times> 'v) list" where
  "dict_setitem [] k v = [(k, v)]"
| "dict_setitem ((k', v') # d) k v =
     (if k' = k then (k, v) # d else (k', v') # dict_setitem d k v)"

fun dict_update :: "('k \<times> 'v) list \<Rightarrow> ('k \<times> 'v) list \<Rightarrow> ('k \<times> 'v) list" where
  "dict_update d [] = d"
| "dict_update d ((k, v) # kvs) = dict_update (dict_setitem d k v) kvs"

text \<open>
  \<^verbatim>\<open>return {"default": self.default, **super().get_template_context()}\<close>. The object
  is the map of its attributes; the parent's method is a parameter. The display is
  evaluated from left to right: the attribute read, which raises when the attribute is
  missing, then the parent's method, which may raise, then the unpacking of its result
  over the entry \<^verbatim>\<open>"default"\<close>.
\<close>

definition get_template_context ::
  "((string \<rightharpoonup> 'v) \<Rightarrow> 'e error + (string \<times> 'v) list) \<Rightarrow> (string \<rightharpoonup> 'v)
     \<Rightarrow> 'e error + (string \<times> 'v) list" where
  "get_template_context parent_context self =
     (case self ''default'' of
        None \<Rightarrow> Inl (AttributeError ''default'')
      | Some d \<Rightarrow>
          (case parent_context self of
             Inl e \<Rightarrow> Inl e
           | Inr ctx \<Rightarrow> Inr (dict_update [(''default'', d)] ctx)))"

text \<open>\<^verbatim>\<open>return {"state": {}}\<close>, a class method.\<close>

definition get_shortcut_implementations :: "(string \<times> (string \<times> 'v) list) list" where
  "get_shortcut_implementations = [(''state'', [])]"

section \<open>Facts about the constructors\<close>

lemma super_kwargs_map_of:
  "map_of (super_kwargs c env) = (\<lambda>n. if n \<in> set (params c) then Some (env n) else None)"
  by (cases c) (auto simp: super_kwargs_def fun_eq_iff)

lemma super_kwargs_distinct: "distinct (map fst (super_kwargs c env))"
  by (cases c) (simp_all add: super_kwargs_def)

lemma super_args_same_names: "map fst (super_args c) = map snd (super_args c)"
  by (cases c) simp_all

lemma init_trace:
  "trace (init act parent c env) =
     Warn (message c) DeprecationWarning
       # (if act = Act_error then [] else [SuperInit (base c) (super_kwargs c env)])"
  by (simp add: init_def warn_def)

lemma init_outcome:
  "outcome (init act parent c env) =
     (if act = Act_error then Inl (WarningAsError DeprecationWarning (message c))
      else parent (base c) (map_of (super_kwargs c env)))"
  by (simp add: init_def warn_def)

lemma init_outcome_parent:
  "outcome (init act parent c env) =
     (if act = Act_error then Inl (WarningAsError DeprecationWarning (message c))
      else parent_construct parent c env)"
  by (simp add: init_outcome parent_construct_def super_kwargs_map_of)

text \<open>
  The bases: each is a name imported from \<^verbatim>\<open>gradio.components\<close>; it is the class's
  own name for every class but \<^verbatim>\<open>Video\<close>; and a constructor that reaches its super
  call makes that one call to the constructor of its base.
\<close>

lemma bases_of_the_classes:
  "base c \<in> set components_imports
   \<and> base c = (if c = Video then ''Component'' else class_name c)
   \<and> map fst (super_calls_of (trace (init act parent c env)))
       = (if act = Act_error then [] else [base c])"
  by (cases c) (simp_all add: components_imports_def init_trace)

section \<open>Facts about calls\<close>

text \<open>
  When a call binds, every parameter has the value the caller gave it, by position or
  by keyword, and otherwise the default of the signature.
\<close>

lemma bind_Some:
  assumes "bind c args kwargs = Some env" and "n \<in> set (params c)"
  shows "Some (env n) =
    (case map_of (zip (params c) args @ kwargs) n of
       Some v \<Rightarrow> Some v | None \<Rightarrow> map_of (defaults c) n)"
proof -
  let ?given = "zip (params c) args @ kwargs"
  from assms(1) have env: "env = (\<lambda>x. case map_of ?given x of
        Some v \<Rightarrow> v
      | None \<Rightarrow> (case map_of (defaults c) x of Some v \<Rightarrow> v | None \<Rightarrow> PNone))"
    and all: "\<not> list_ex (\<lambda>p. map_of ?given p = None \<and> map_of (defaults c) p = None) (params c)"
    by (simp_all add: bind_def Let_def split: if_splits)
  from all assms(2) have "map_of ?given n \<noteq> None \<or> map_of (defaults c) n \<noteq> None"
    by (auto simp: list_ex_iff)
  then show ?thesis
    by (auto simp: env split: option.splits)
qed

lemma construct_bound:
  "bind c args kwargs = Some env \<Longrightarrow> construct act parent c args kwargs = init act parent c env"
  by (simp add: construct_def)

lemma construct_unbound:
  "bind c args kwargs = None \<Longrightarrow>
     construct act parent c args kwargs = \<lparr>trace = [], outcome = Inl TypeError\<rparr>"
  by (simp add: construct_def)

section \<open>Facts about dictionaries\<close>

lemma map_of_dict_setitem: "map_of (dict_setitem d k v) = (map_of d)(k \<mapsto> v)"
  by (induction d k v rule: dict_setitem.induct) (auto simp: fun_eq_iff)

lemma keys_dict_setitem: "set (map fst (dict_setitem d k v)) = insert k (set (map fst d))"
  by (induction d k v rule: dict_setitem.induct) auto

lemma distinct_dict_setitem:
  "distinct (map fst d) \<Longrightarrow> distinct (map fst (dict_setitem d k v))"
proof (induction d k v rule: dict_setitem.induct)
  case (1 k v)
  then show ?case by simp
next
  case (2 k' v' d k v)
  then show ?case using keys_dict_setitem [of d k v] by auto
qed

lemma distinct_dict_update:
  "distinct (map fst d) \<Longrightarrow> distinct (map fst (dict_update d kvs))"
  by (induction d kvs rule: dict_update.induct) (simp_all add: distinct_dict_setitem)

text \<open>Unpacking a dictionary over another: the unpacked entries win.\<close>

lemma map_of_dict_update:
  "distinct (map fst kvs) \<Longrightarrow> map_of (dict_update d kvs) = map_of d ++ map_of kvs"
proof (induction d kvs rule: dict_update.induct)
  case (1 d)
  then show ?case by simp
next
  case (2 d k v kvs)
  from "2.prems" have fresh: "map_of kvs k = None" and rest: "distinct (map fst kvs)"
    by (simp_all add: map_of_eq_None_iff)
  have "map_of (dict_update d ((k, v) # kvs)) = map_of (dict_setitem d k v) ++ map_of kvs"
    using "2.IH" [OF rest] by simp
  also have "\<dots> = (map_of d)(k \<mapsto> v) ++ map_of kvs"
    by (simp only: map_of_dict_setitem)
  also have "\<dots> = map_of d ++ (map_of kvs)(k \<mapsto> v)"
    using fresh by (auto simp: fun_eq_iff map_add_def split: option.splits)
  also have "\<dots> = map_of d ++ map_of ((k, v) # kvs)"
    by simp
  finally show ?case .
qed

section \<open>The claims\<close>

text \<open>
  C1, as the code has it. For every class and every call of its constructor whose
  arguments bind to the signature: if the warnings filter does not turn the deprecation
  warning into an exception, the constructor makes one call of the superclass
  constructor, and the keyword arguments of that call, read as a binding of names to
  values, are exactly the constructor's parameters, each under its own name and with
  the value the caller gave it or, where the caller gave none, the default of the shim's
  own signature; no other name is passed, no keyword is given twice, and every keyword
  is the name of the variable passed under it.
\<close>

theorem constructor_forwards_bound_arguments:
  assumes "bind c args kwargs = Some env" and "act \<noteq> Act_error"
  shows "super_calls_of (trace (construct act parent c args kwargs))
       = [(base c, super_kwargs c env)]
     \<and> map_of (super_kwargs c env)
       = (\<lambda>n. if n \<in> set (params c)
              then (case map_of (zip (params c) args @ kwargs) n of
                      Some v \<Rightarrow> Some v | None \<Rightarrow> map_of (defaults c) n)
              else None)
     \<and> distinct (map fst (super_kwargs c env))
     \<and> map fst (super_args c) = map snd (super_args c)"
proof -
  have calls: "super_calls_of (trace (construct act parent c args kwargs))
      = [(base c, super_kwargs c env)]"
    using assms by (simp add: construct_bound init_trace)
  have vals: "map_of (super_kwargs c env)
      = (\<lambda>n. if n \<in> set (params c)
             then (case map_of (zip (params c) args @ kwargs) n of
                     Some v \<Rightarrow> Some v | None \<Rightarrow> map_of (defaults c) n)
             else None)"
    using bind_Some [OF assms(1)] by (auto simp: super_kwargs_map_of fun_eq_iff)
  from calls vals show ?thesis
    by (simp add: super_kwargs_distinct super_args_same_names)
qed

text \<open>
  An instance: \<^verbatim>\<open>Slider(5, maximum=50)\<close> under the filter action \<^verbatim>\<open>default\<close>.
  The one super call goes to \<^verbatim>\<open>Slider\<close>, with 5 under \<^verbatim>\<open>minimum\<close>, 50 under
  \<^verbatim>\<open>maximum\<close>, the defaults of the signature under \<^verbatim>\<open>step\<close> and \<^verbatim>\<open>optional\<close>,
  and nothing under a name that is no parameter.
\<close>

theorem slider_call_forwards_bound_arguments:
  "bind Slider [PInt 5] [(''maximum'', PInt 50)] \<noteq> None \<and> Act_default \<noteq> Act_error
   \<and> (\<exists>kw. super_calls_of (trace (construct Act_default (\<lambda>b kw. Inr ()) Slider
               [PInt 5] [(''maximum'', PInt 50)] :: (pyval, unit, unit) run))
             = [(''Slider'', kw)]
          \<and> map_of kw ''minimum'' = Some (PInt 5) \<and> map_of kw ''maximum'' = Some (PInt 50)
          \<and> map_of kw ''step'' = Some PNone \<and> map_of kw ''optional'' = Some (PBool False)
          \<and> map_of kw ''value'' = None)"
proof -
  obtain env where b: "bind Slider [PInt 5] [(''maximum'', PInt 50)] = Some env"
    by (simp add: bind_def)
  have a: "Act_default \<noteq> Act_error" by simp
  note t = constructor_forwards_bound_arguments [OF b a,
      of "\<lambda>b kw. Inr () :: unit error + unit"]
  from t have c: "super_calls_of (trace (construct Act_default (\<lambda>b kw. Inr ()) Slider
      [PInt 5] [(''maximum'', PInt 50)] :: (pyval, unit, unit) run))
      = [(''Slider'', super_kwargs Slider env)]"
    by simp
  from t have m: "map_of (super_kwargs Slider env)
      = (\<lambda>n. if n \<in> set (params Slider)
             then (case map_of (zip (params Slider) [PInt 5] @ [(''maximum'', PInt 50)]) n of
                     Some v \<Rightarrow> Some v | None \<Rightarrow> map_of (defaults Slider) n)
             else None)"
    by blast
  have "map_of (super_kwargs Slider env) ''minimum'' = Some (PInt 5)"
    and "map_of (super_kwargs Slider env) ''maximum'' = Some (PInt 50)"
    and "map_of (super_kwargs Slider env) ''step'' = Some PNone"
    and "map_of (super_kwargs Slider env) ''optional'' = Some (PBool False)"
    and "map_of (super_kwargs Slider env) ''value'' = None"
    by (simp_all add: m)
  with a b c show ?thesis by blast
qed

text \<open>
  C1 as stated fails: the call \<^verbatim>\<open>Textbox()\<close> binds (every parameter takes its
  default), but with the filter action \<^verbatim>\<open>error\<close> the constructor passes none of the
  values it received to the superclass constructor, which it never calls.
\<close>

theorem textbox_passes_nothing_when_warning_raised:
  "bind Textbox [] [] \<noteq> None
   \<and> super_calls_of (trace (construct Act_error (\<lambda>b kw. Inr ()) Textbox [] []
         :: (pyval, unit, unit) run)) = []"
  by (simp add: construct_def bind_def init_trace)

text \<open>
  C2, as the code has it. For every class and every invocation of its constructor, the
  first event is the one warning the constructor issues, of category
  \<^verbatim>\<open>DeprecationWarning\<close>. If the warnings filter does not turn that warning into an
  exception, the call of the superclass constructor follows, once, and nothing else;
  under the filter action \<^verbatim>\<open>error\<close> the warning is raised and there is no super call.
  So the warning precedes the delegation in every run, but the delegation does not
  happen in every run.
\<close>

theorem constructor_warns_then_delegates:
  "trace (init act parent c env) =
     Warn (message c) DeprecationWarning
       # (if act = Act_error then [] else [SuperInit (base c) (super_kwargs c env)])"
  by (rule init_trace)

text \<open>
  C2 as stated fails: with the filter action \<^verbatim>\<open>error\<close>, the constructor of
  \<^verbatim>\<open>Slider\<close> issues its warning and never calls the superclass constructor.
\<close>

theorem slider_warning_without_delegation:
  "warnings_of (trace (init Act_error (\<lambda>b kw. Inr ()) Slider (\<lambda>x. ())
       :: (unit, unit, unit) run)) = [(message Slider, DeprecationWarning)]
   \<and> super_calls_of (trace (init Act_error (\<lambda>b kw. Inr ()) Slider (\<lambda>x. ())
       :: (unit, unit, unit) run)) = []"
  by (simp add: init_trace)

text \<open>
  C3, as the code has it. Every class other than \<^verbatim>\<open>State\<close> defines its constructor
  and nothing else; \<^verbatim>\<open>State\<close> defines, besides its constructor, the methods
  \<^verbatim>\<open>get_template_context\<close> and \<^verbatim>\<open>get_shortcut_implementations\<close>.
\<close>

theorem only_state_defines_more_than_its_constructor:
  "methods c =
     (if c = State
      then [''__init__'', ''get_template_context'', ''get_shortcut_implementations'']
      else [''__init__''])"
  by (cases c) simp_all

text \<open>
  C3 as stated fails: the class \<^verbatim>\<open>State\<close> does not define its constructor only.
\<close>

theorem state_defines_further_methods:
  "methods State \<noteq> [''__init__'']"
  by simp

text \<open>
  C4 does not hold of the code at \<^verbatim>\<open>Video\<close>. Its class statement names
  \<^verbatim>\<open>Component\<close> as the base, and no class named \<^verbatim>\<open>Video\<close> is among the names
  imported from \<^verbatim>\<open>gradio.components\<close>; so the one super call of a \<^verbatim>\<open>Video\<close>
  construction goes to the constructor of \<^verbatim>\<open>Component\<close>, with the four keyword
  arguments of a video component.
\<close>

theorem video_base_is_not_video:
  "base Video = ''Component'' \<and> base Video \<noteq> class_name Video
   \<and> class_name Video \<notin> set components_imports
   \<and> super_calls_of (trace (init Act_default (\<lambda>b kw. Inr ()) Video (\<lambda>x. ())
         :: (unit, unit, unit) run))
       = [(''Component'',
           [(''type'', ()), (''source'', ()), (''label'', ()), (''optional'', ())])]"
  by (simp add: components_imports_def init_trace super_kwargs_def)

text \<open>
  C5, as the code has it. For every class, every parent constructor and every
  assignment of the constructor's parameters: unless the warnings filter turns the
  deprecation warning into an exception, constructing through the shim has the outcome
  (the object, or the exception) of constructing the parent class directly with the same
  values under the same names, and the shim's own contribution is the one warning. Under
  the filter action \<^verbatim>\<open>error\<close> the shim raises the warning and constructs nothing.
\<close>

theorem shim_refines_parent_constructor:
  "outcome (init act parent c env) =
     (if act = Act_error then Inl (WarningAsError DeprecationWarning (message c))
      else parent_construct parent c env)
   \<and> warnings_of (trace (init act parent c env)) = [(message c, DeprecationWarning)]"
  by (simp add: init_outcome_parent init_trace)

text \<open>
  C5 as stated fails: with the filter action \<^verbatim>\<open>error\<close> and a parent constructor
  that succeeds, constructing \<^verbatim>\<open>Radio\<close> through the shim raises, while constructing
  the parent directly yields the object.
\<close>

theorem radio_shim_differs_from_parent:
  "outcome (init Act_error (\<lambda>b kw. Inr ()) Radio (\<lambda>x. ()) :: (unit, unit, unit) run)
     = Inl (WarningAsError DeprecationWarning (message Radio))
   \<and> parent_construct (\<lambda>b kw. Inr ()) Radio (\<lambda>x. ()) = (Inr () :: unit error + unit)"
  by (simp add: init_outcome parent_construct_def)

text \<open>
  C6, as the code has it. No class renames a parameter when delegating: in every super
  call, every keyword is the name of the variable passed under it.
\<close>

theorem no_constructor_renames_a_parameter:
  "\<not> renames c"
  by (cases c) (simp_all add: renames_def)

text \<open>
  C6 as stated fails: among the fourteen classes of the module there is none that
  renames a parameter.
\<close>

theorem no_class_of_the_module_renames:
  "\<not> list_ex renames module_classes"
  by (simp add: module_classes_def renames_def)

text \<open>
  C7, as the code has it. No constructor inspects its arguments; Python binds them to
  the signature before the body runs. For every class and every call of its
  constructor, the call raises if and only if the arguments do not bind to the shim's
  signature, or (when they bind) the warnings filter turns the deprecation warning into
  an exception or the parent constructor raises on the bound arguments, that is, the
  caller's values and the shim's defaults under the parameters' names. Whether it raises
  or not, the only effect the shim itself contributes is the one deprecation warning,
  and no warning at all when the arguments do not bind.
\<close>

theorem shim_raises_iff_unbound_or_escalated_or_parent_raises:
  "(isl (outcome (construct act parent c args kwargs))
      \<longleftrightarrow> (case bind c args kwargs of
             None \<Rightarrow> True
           | Some env \<Rightarrow> act = Act_error \<or> isl (parent_construct parent c env)))
   \<and> warnings_of (trace (construct act parent c args kwargs))
       = (case bind c args kwargs of
            None \<Rightarrow> []
          | Some env \<Rightarrow> [(message c, DeprecationWarning)])"
  by (cases "bind c args kwargs")
     (simp_all add: construct_unbound construct_bound init_outcome_parent init_trace)

text \<open>
  C7 as stated fails, in two ways. The call \<^verbatim>\<open>CheckboxGroup()\<close> leaves the
  parameter \<^verbatim>\<open>choices\<close> without a value: under the filter action \<^verbatim>\<open>always\<close> it
  raises without having issued a warning, although a parent constructor that accepts
  every call does not raise on the same (no) arguments. The call
  \<^verbatim>\<open>CheckboxGroup([])\<close> binds: under the filter action \<^verbatim>\<open>error\<close> it raises,
  although that parent constructor does not raise on the bound arguments.
\<close>

theorem checkboxgroup_raises_parent_does_not:
  "isl (outcome (construct Act_always (\<lambda>b kw. Inr ()) CheckboxGroup [] []
       :: (pyval, unit, unit) run))
   \<and> warnings_of (trace (construct Act_always (\<lambda>b kw. Inr ()) CheckboxGroup [] []
       :: (pyval, unit, unit) run)) = []
   \<and> \<not> isl ((\<lambda>b kw. Inr ()) (base CheckboxGroup) (map_of ([] :: (string \<times> pyval) list))
       :: unit error + unit)
   \<and> isl (outcome (construct Act_error (\<lambda>b kw. Inr ()) CheckboxGroup [PList []] []
       :: (pyval, unit, unit) run))
   \<and> (case bind CheckboxGroup [PList []] [] of
         None \<Rightarrow> False
       | Some env \<Rightarrow>
           \<not> isl (parent_construct (\<lambda>b kw. Inr ()) CheckboxGroup env :: unit error + unit))"
  by (simp add: construct_def bind_def init_outcome parent_construct_def)

text \<open>
  C8. The module defines exactly fourteen component shim classes: the list of its class
  statements has fourteen entries, which bind fourteen different names, and there is no
  other class.
\<close>

theorem module_defines_fourteen_classes:
  "length module_classes = 14 \<and> distinct (map class_name module_classes)
   \<and> set module_classes = UNIV"
proof -
  have "\<And>c. c \<in> set module_classes"
    subgoal for c by (cases c) (simp_all add: module_classes_def)
    done
  then have "set module_classes = UNIV" by blast
  moreover have "length module_classes = 14" by (simp add: module_classes_def)
  moreover have "distinct (map class_name module_classes)"
    by (simp add: module_classes_def)
  ultimately show ?thesis by simp
qed

text \<open>
  C9. For every class, the warning is independent of the constructor's arguments: any
  two invocations of the same class's constructor, with any two assignments of the
  parameters (and any warnings filters and parent constructors), issue the same
  warnings, namely the one message of the class with category
  \<^verbatim>\<open>DeprecationWarning\<close>.
\<close>

theorem warning_independent_of_arguments:
  "warnings_of (trace (init act parent c env)) = warnings_of (trace (init act' parent' c env'))
   \<and> warnings_of (trace (init act parent c env)) = [(message c, DeprecationWarning)]"
  by (simp add: init_trace)

text \<open>
  C10. When the object has the attribute \<^verbatim>\<open>default\<close> with value \<open>d\<close> and the parent's
  method returns the dictionary \<open>ctx\<close>, \<^verbatim>\<open>State.get_template_context\<close> returns a
  dictionary \<open>r\<close> in which the key \<^verbatim>\<open>"default"\<close> has the parent's value if the
  parent's context has that key and \<open>d\<close> otherwise, and every other key has exactly what
  the parent's context has for it (its value, or no entry); \<open>r\<close> has no key twice.
\<close>

theorem state_template_context_extends_parent:
  assumes "self ''default'' = Some d" and "parent_context self = Inr ctx"
    and "distinct (map fst ctx)"
  shows "\<exists>r. get_template_context parent_context self = Inr r
    \<and> map_of r ''default''
        = (case map_of ctx ''default'' of None \<Rightarrow> Some d | Some v \<Rightarrow> Some v)
    \<and> (\<forall>k. k \<noteq> ''default'' \<longrightarrow> map_of r k = map_of ctx k)
    \<and> distinct (map fst r)"
proof -
  let ?r = "dict_update [(''default'', d)] ctx"
  have r: "get_template_context parent_context self = Inr ?r"
    using assms by (simp add: get_template_context_def)
  have m: "map_of ?r = map_of [(''default'', d)] ++ map_of ctx"
    using assms(3) by (rule map_of_dict_update)
  have 1: "map_of ?r ''default''
      = (case map_of ctx ''default'' of None \<Rightarrow> Some d | Some v \<Rightarrow> Some v)"
    by (simp add: m map_add_def split: option.splits)
  have 2: "\<forall>k. k \<noteq> ''default'' \<longrightarrow> map_of ?r k = map_of ctx k"
    by (simp add: m map_add_def split: option.splits)
  have 3: "distinct (map fst ?r)"
    by (rule distinct_dict_update) simp
  from r 1 2 3 show ?thesis by blast
qed

text \<open>
  An instance: the object's \<^verbatim>\<open>default\<close> is 1 and the parent's context is
  \<^verbatim>\<open>{"label": 2, "default": 3}\<close>; the result has 3 under \<^verbatim>\<open>"default"\<close> and 2 under
  \<^verbatim>\<open>"label"\<close>.
\<close>

theorem state_template_context_instance:
  "[''default'' \<mapsto> 1::nat] ''default'' = Some 1
   \<and> distinct (map fst [(''label'', 2::nat), (''default'', 3)])
   \<and> (\<exists>r. get_template_context (\<lambda>s. Inr [(''label'', 2), (''default'', 3)])
             [''default'' \<mapsto> 1::nat]
           = (Inr r :: unit error + (string \<times> nat) list)
         \<and> map_of r ''default'' = Some 3 \<and> map_of r ''label'' = Some 2)"
  using state_template_context_extends_parent [of "[''default'' \<mapsto> 1::nat]" 1
      "\<lambda>s. Inr [(''label'', 2), (''default'', 3)] :: unit error + (string \<times> nat) list"
      "[(''label'', 2), (''default'', 3)]"]
  by auto

end
